theory Spec2Isabelle
  imports Complex_Main "HOL-Library.Log_Nat"
begin

section \<open>FinWell: the analysis-and-decision pipeline\<close>

text \<open>
  The development embeds the scoring functions of \<^verbatim>\<open>agents/risk_agent.py\<close>,
  \<^verbatim>\<open>agents/analysis_agent.py\<close> and \<^verbatim>\<open>tools/technical_analysis.py\<close>.

  Numbers: a Python \<^verbatim>\<open>float\<close> is modelled as a \<^typ>\<open>real\<close>, so arithmetic is exact;
  infinities and NaN are written out where the code meets them. The portfolio allocation,
  whose specification is an exact equality between computed floats, is modelled on
  doubles: every operation rounds to the nearest binary64 number.
  A Python \<^verbatim>\<open>int\<close> is an \<^typ>\<open>int\<close>.
  A value that may be \<^verbatim>\<open>None\<close> (or a pandas \<^verbatim>\<open>NaN\<close>, which
  \<^verbatim>\<open>convert_to_native_type\<close> turns into \<^verbatim>\<open>None\<close>) is an \<^typ>\<open>real option\<close>.
  The labels the code passes around as strings (\<^verbatim>\<open>"BULLISH"\<close>, \<^verbatim>\<open>"STRONG_BUY"\<close>, ...) stay
  strings. A Python exception is a value of \<open>py_error\<close>, returned on the left of a sum.
\<close>

datatype py_error =
    TypeError
  | ValueError
  | KeyError
  | AttributeError
  | UnboundLocalError
  | ZeroDivisionError
  | IndexError

subsection \<open>Recommendation synthesizer (\<^verbatim>\<open>RiskAgent\<close>)\<close>

text \<open>
  \<^verbatim>\<open>generate_stock_recommendation\<close> blends the three scores into the local
  \<^verbatim>\<open>combined_score\<close> and maps it to an action through the threshold chain. The local
  is a definition of its own so that theorems can speak about it. The \<^verbatim>\<open>reasoning\<close>
  text of the result is a formatted string of the inputs and is not part of the model.
\<close>

definition combined_score :: "string \<Rightarrow> real \<Rightarrow> real \<Rightarrow> real \<Rightarrow> real" where
  "combined_score technical_signal technical_confidence fundamental_score risk_score =
     (let tech_weight = 0.4;
          fund_weight = 0.4;
          risk_weight = 0.2;
          tech_score = (if technical_signal = ''BULLISH'' then 80
                        else if technical_signal = ''BEARISH'' then 20 else 50);
          tech_score = tech_score * technical_confidence;
          risk_adjusted_score = 100 - risk_score
      in tech_score * tech_weight + fundamental_score * fund_weight
           + risk_adjusted_score * risk_weight)"

record stock_recommendation =
  action :: string
  confidence :: real
  time_horizon :: string

definition generate_stock_recommendation ::
  "string \<Rightarrow> real \<Rightarrow> real \<Rightarrow> real \<Rightarrow> stock_recommendation" where
  "generate_stock_recommendation technical_signal technical_confidence fundamental_score risk_score =
     (let score = combined_score technical_signal technical_confidence fundamental_score risk_score;
          conf = min (technical_confidence + 0.2) 1.0
      in if score \<ge> 70 then
           \<lparr>action = ''STRONG_BUY'', confidence = conf, time_horizon = ''3-6 months''\<rparr>
         else if score \<ge> 60 then
           \<lparr>action = ''BUY'', confidence = conf, time_horizon = ''1-3 months''\<rparr>
         else if score \<ge> 40 then
           \<lparr>action = ''HOLD'', confidence = conf, time_horizon = ''Monitor''\<rparr>
         else if score \<ge> 30 then
           \<lparr>action = ''SELL'', confidence = conf, time_horizon = ''1-2 weeks''\<rparr>
         else
           \<lparr>action = ''STRONG_SELL'', confidence = conf, time_horizon = ''Immediate''\<rparr>)"

text \<open>
  The order of the five tiers, as the specification gives it:
  STRONG\_SELL < SELL < HOLD < BUY < STRONG\_BUY. A string that is none of the five has no
  rank.
\<close>

definition action_rank :: "string \<Rightarrow> nat option" where
  "action_rank a =
     (if a = ''STRONG_SELL'' then Some 0
      else if a = ''SELL'' then Some 1
      else if a = ''HOLD'' then Some 2
      else if a = ''BUY'' then Some 3
      else if a = ''STRONG_BUY'' then Some 4
      else None)"

definition less_bullish :: "string \<Rightarrow> string \<Rightarrow> bool" where
  "less_bullish a b =
     (case (action_rank a, action_rank b) of
        (Some i, Some j) \<Rightarrow> i < j
      | _ \<Rightarrow> False)"

definition calculate_position_size :: "real \<Rightarrow> real \<Rightarrow> real" where
  "calculate_position_size risk_score conf =
     (let base_size = 10.0;
          risk_multiplier = max 0.2 ((100 - risk_score) / 100);
          confidence_multiplier = conf;
          position_size = base_size * risk_multiplier * confidence_multiplier
      in min (max position_size 1.0) 25.0)"

subsection \<open>Fundamental scorer (\<^verbatim>\<open>AnalysisAgent.calculate_fundamental_score\<close>)\<close>

text \<open>
  The scorer reads five entries of the nested \<^verbatim>\<open>analysis\<close> dictionary with
  \<^verbatim>\<open>.get\<close>, so each is a number or \<^verbatim>\<open>None\<close>. The guards are Python truth tests
  (\<^verbatim>\<open>if pe_ratio:\<close>, \<^verbatim>\<open>roe and roe > 0.15\<close>): \<^verbatim>\<open>None\<close> and the number 0 are both false.
  The score itself is a Python \<^verbatim>\<open>int\<close>.
\<close>

record fundamental_metrics =
  pe_ratio :: "real option"
  return_on_equity :: "real option"
  profit_margin :: "real option"
  debt_to_equity :: "real option"
  current_ratio :: "real option"

definition truthy :: "real option \<Rightarrow> bool" where
  "truthy x = (case x of None \<Rightarrow> False | Some v \<Rightarrow> v \<noteq> 0)"

definition calculate_fundamental_score :: "fundamental_metrics \<Rightarrow> int" where
  "calculate_fundamental_score analysis =
     (let score = 50;
          score = (case pe_ratio analysis of
                     None \<Rightarrow> score
                   | Some pe \<Rightarrow>
                       if pe \<noteq> 0 then
                         (if 10 \<le> pe \<and> pe \<le> 20 then score + 10
                          else if pe < 10 \<or> pe > 30 then score - 10
                          else score)
                       else score);
          score = (case return_on_equity analysis of
                     None \<Rightarrow> score
                   | Some roe \<Rightarrow>
                       if roe \<noteq> 0 \<and> roe > 0.15 then score + 15
                       else if roe \<noteq> 0 \<and> roe < 0.05 then score - 15
                       else score);
          score = (case profit_margin analysis of
                     None \<Rightarrow> score
                   | Some pm \<Rightarrow>
                       if pm \<noteq> 0 \<and> pm > 0.1 then score + 10
                       else if pm \<noteq> 0 \<and> pm < 0 then score - 20
                       else score);
          score = (case debt_to_equity analysis of
                     None \<Rightarrow> score
                   | Some de \<Rightarrow>
                       if de \<noteq> 0 \<and> de < 0.5 then score + 10
                       else if de \<noteq> 0 \<and> de > 2 then score - 15
                       else score);
          score = (case current_ratio analysis of
                     None \<Rightarrow> score
                   | Some cr \<Rightarrow>
                       if cr \<noteq> 0 \<and> cr > 1.5 then score + 5
                       else if cr \<noteq> 0 \<and> cr < 1 then score - 10
                       else score)
      in max 0 (min 100 score))"

text \<open>
  The rule table of the specification (section 4.2): field, condition, change of the
  score. \<open>rule_holds\<close> is the specification's reading of a rule that applies: the field is
  present and the condition holds. \<open>rule_added\<close> is what the code's guards test: the field
  is present, is not 0, and the condition holds.
\<close>

datatype metric_field = PE | ROE | Profit_margin | Debt_to_equity | Current_ratio

type_synonym score_rule = "metric_field \<times> (real \<Rightarrow> bool) \<times> int"

definition rule_table :: "score_rule list" where
  "rule_table =
     [(PE, \<lambda>v. 10 \<le> v \<and> v \<le> 20, 10),
      (PE, \<lambda>v. v < 10 \<or> v > 30, - 10),
      (ROE, \<lambda>v. v > 0.15, 15),
      (ROE, \<lambda>v. v < 0.05, - 15),
      (Profit_margin, \<lambda>v. v > 0.10, 10),
      (Profit_margin, \<lambda>v. v < 0, - 20),
      (Debt_to_equity, \<lambda>v. v < 0.5, 10),
      (Debt_to_equity, \<lambda>v. v > 2, - 15),
      (Current_ratio, \<lambda>v. v > 1.5, 5),
      (Current_ratio, \<lambda>v. v < 1, - 10)]"

fun field_value :: "fundamental_metrics \<Rightarrow> metric_field \<Rightarrow> real option" where
  "field_value m PE = pe_ratio m"
| "field_value m ROE = return_on_equity m"
| "field_value m Profit_margin = profit_margin m"
| "field_value m Debt_to_equity = debt_to_equity m"
| "field_value m Current_ratio = current_ratio m"

fun rule_holds :: "fundamental_metrics \<Rightarrow> score_rule \<Rightarrow> bool" where
  "rule_holds m (f, cond, delta) =
     (case field_value m f of None \<Rightarrow> False | Some v \<Rightarrow> cond v)"

fun rule_added :: "fundamental_metrics \<Rightarrow> score_rule \<Rightarrow> bool" where
  "rule_added m (f, cond, delta) = (truthy (field_value m f) \<and> rule_holds m (f, cond, delta))"

fun rule_delta :: "score_rule \<Rightarrow> int" where
  "rule_delta (f, cond, delta) = delta"

definition added_total :: "fundamental_metrics \<Rightarrow> int" where
  "added_total m = sum_list (map rule_delta (filter (rule_added m) rule_table))"

subsection \<open>Fallback risk estimator (\<^verbatim>\<open>RiskAgent._generate_fallback_risk_metrics\<close>)\<close>

text \<open>
  The technical analysis of a symbol is a dictionary: either an error result (it has the key
  \<^verbatim>\<open>"error"\<close>) or a result that may carry \<^verbatim>\<open>"trading_signals"\<close>, whose entries are read
  with the defaults \<^verbatim>\<open>"NEUTRAL"\<close> and 0.5. The field \<open>signal_confidence\<close> is the key
  \<^verbatim>\<open>"confidence"\<close> of the trading signals.
\<close>

record trading_signals =
  overall_signal :: "string option"
  signal_confidence :: "real option"

record tech_data =
  tech_error :: "string option"
  tech_trading_signals :: "trading_signals option"

text \<open>
  An entry of the risk metrics of a symbol: an error dictionary, or the metrics. The key
  \<^verbatim>\<open>"estimation_note"\<close> exists only in the entries the fallback estimator writes.
\<close>

record risk_metrics =
  volatility_daily :: real
  volatility_annualized :: real
  var_95_percent :: real
  var_99_percent :: real
  max_drawdown :: real
  sharpe_ratio :: real
  beta :: real
  risk_score :: real
  estimation_note :: "string option"

datatype risk_entry = Risk_error string | Risk_metrics risk_metrics

record risk_metrics_result =
  risk_metrics_of :: "string \<rightharpoonup> risk_entry"
  status :: string

text \<open>The body of the loop over the symbols, for one symbol.\<close>

definition fallback_entry :: "tech_data option \<Rightarrow> risk_entry" where
  "fallback_entry looked_up =
     (let tech = (case looked_up of
                    None \<Rightarrow> \<lparr>tech_error = None, tech_trading_signals = None\<rparr>
                  | Some t \<Rightarrow> t)
      in if tech_error tech \<noteq> None then Risk_error ''No technical data available''
         else
           let technical_signal =
                 (case tech_trading_signals tech of
                    None \<Rightarrow> ''NEUTRAL''
                  | Some ts \<Rightarrow> (case overall_signal ts of None \<Rightarrow> ''NEUTRAL'' | Some x \<Rightarrow> x));
               conf =
                 (case tech_trading_signals tech of
                    None \<Rightarrow> 0.5
                  | Some ts \<Rightarrow> (case signal_confidence ts of None \<Rightarrow> 0.5 | Some c \<Rightarrow> c));
               base_risk = 50;
               score = (if technical_signal = ''BULLISH'' \<and> conf > 0.7 then 35
                        else if technical_signal = ''BEARISH'' \<and> conf > 0.7 then 75
                        else if conf < 0.3 then 65
                        else base_risk)
           in Risk_metrics
                \<lparr>volatility_daily = 0.02, volatility_annualized = 0.32,
                 var_95_percent = - 0.03, var_99_percent = - 0.05,
                 max_drawdown = - 0.15, sharpe_ratio = 0.8, beta = 1.1,
                 risk_score = score,
                 estimation_note = Some
                   ''Risk metrics estimated from technical analysis due to limited historical data''\<rparr>)"

definition generate_fallback_risk_metrics ::
  "string list \<Rightarrow> (string \<rightharpoonup> tech_data) \<Rightarrow> risk_metrics_result" where
  "generate_fallback_risk_metrics symbols technical_analysis =
     \<lparr>risk_metrics_of =
        foldl (\<lambda>acc symbol. acc(symbol \<mapsto> fallback_entry (technical_analysis symbol)))
          Map.empty symbols,
      status = ''success''\<rparr>"

text \<open>
  The trading signal the estimator reads for a symbol, with its defaults, when the
  technical analysis of the symbol is not an error.
\<close>

definition signal_of :: "tech_data option \<Rightarrow> string" where
  "signal_of looked_up =
     (case looked_up of
        None \<Rightarrow> ''NEUTRAL''
      | Some t \<Rightarrow>
          (case tech_trading_signals t of
             None \<Rightarrow> ''NEUTRAL''
           | Some ts \<Rightarrow> (case overall_signal ts of None \<Rightarrow> ''NEUTRAL'' | Some x \<Rightarrow> x)))"

definition confidence_of :: "tech_data option \<Rightarrow> real" where
  "confidence_of looked_up =
     (case looked_up of
        None \<Rightarrow> 0.5
      | Some t \<Rightarrow>
          (case tech_trading_signals t of
             None \<Rightarrow> 0.5
           | Some ts \<Rightarrow> (case signal_confidence ts of None \<Rightarrow> 0.5 | Some c \<Rightarrow> c)))"

definition has_error :: "tech_data option \<Rightarrow> bool" where
  "has_error looked_up = (case looked_up of None \<Rightarrow> False | Some t \<Rightarrow> tech_error t \<noteq> None)"

text \<open>The four cases of the specification for the fallback score.\<close>

definition fallback_cases :: "string \<Rightarrow> real \<Rightarrow> real \<Rightarrow> bool" where
  "fallback_cases sig conf score =
     ((sig = ''BULLISH'' \<and> conf > 0.7 \<longrightarrow> score = 35)
      \<and> (sig = ''BEARISH'' \<and> conf > 0.7 \<longrightarrow> score = 75)
      \<and> (conf < 0.3 \<longrightarrow> score = 65)
      \<and> (\<not> (sig = ''BULLISH'' \<and> conf > 0.7) \<and> \<not> (sig = ''BEARISH'' \<and> conf > 0.7)
           \<and> \<not> conf < 0.3 \<longrightarrow> score = 50))"

subsection \<open>Risk engine (\<^verbatim>\<open>RiskAgent\<close>): drawdown and risk score\<close>

text \<open>
  The numpy operations on one-dimensional arrays, as functions on lists.
  \<^verbatim>\<open>np.diff\<close> gives the differences of neighbours, \<^verbatim>\<open>np.std\<close> is the population
  standard deviation, \<^verbatim>\<open>np.maximum.accumulate\<close> the running maximum, and \<^verbatim>\<open>np.min\<close> of
  an empty array raises \<^verbatim>\<open>ValueError\<close>. numpy divides by 0 without raising (the result is
  an infinity or NaN); the model has no such values, and the theorems on these functions
  assume the strictly positive prices that exclude the case.
\<close>

fun np_diff :: "real list \<Rightarrow> real list" where
  "np_diff (x # y # xs) = (y - x) # np_diff (y # xs)"
| "np_diff xs = []"

definition np_mean :: "real list \<Rightarrow> real" where
  "np_mean xs = sum_list xs / real (length xs)"

definition np_std :: "real list \<Rightarrow> real" where
  "np_std xs = sqrt (np_mean (map (\<lambda>x. (x - np_mean xs)\<^sup>2) xs))"

fun accumulate_from :: "real \<Rightarrow> real list \<Rightarrow> real list" where
  "accumulate_from m [] = []"
| "accumulate_from m (x # xs) = max m x # accumulate_from (max m x) xs"

definition maximum_accumulate :: "real list \<Rightarrow> real list" where
  "maximum_accumulate xs = (case xs of [] \<Rightarrow> [] | x # rest \<Rightarrow> x # accumulate_from x rest)"

definition np_min :: "real list \<Rightarrow> py_error + real" where
  "np_min xs = (case xs of [] \<Rightarrow> Inl ValueError | x # rest \<Rightarrow> Inr (fold min rest x))"

text \<open>
  The return series of \<^verbatim>\<open>calculate_risk_metrics\<close>:
  \<^verbatim>\<open>returns = np.diff(prices) / prices[:-1]\<close>.
\<close>

definition simple_returns :: "real list \<Rightarrow> real list" where
  "simple_returns prices = map2 (\<lambda>d p. d / p) (np_diff prices) (butlast prices)"

definition calculate_max_drawdown :: "real list \<Rightarrow> py_error + real" where
  "calculate_max_drawdown prices =
     (let peak = maximum_accumulate prices;
          drawdown = map2 (\<lambda>p k. (p - k) / k) prices peak
      in np_min drawdown)"

definition calculate_risk_score :: "real list \<Rightarrow> real list \<Rightarrow> py_error + real" where
  "calculate_risk_score returns prices =
     (if length returns = 0 then Inr 50.0
      else
        let volatility = np_std returns * sqrt 252 in
        case calculate_max_drawdown prices of
          Inl e \<Rightarrow> Inl e
        | Inr dd \<Rightarrow>
            let max_dd = \<bar>dd\<bar>;
                vol_score = min (volatility * 100) 50;
                dd_score = min (max_dd * 100) 50
            in Inr (vol_score + dd_score))"

subsection \<open>Portfolio allocation (\<^verbatim>\<open>RiskAgent.generate_portfolio_allocation\<close>)\<close>

text \<open>
  A recommendation is a dictionary with the key \<^verbatim>\<open>"recommendation"\<close>; the
  \<^verbatim>\<open>INSUFFICIENT_DATA\<close> sentinel has no \<^verbatim>\<open>"position_size"\<close>, and reading the key of an
  entry that lacks it raises \<^verbatim>\<open>KeyError\<close>. A Python dictionary is the list of its items
  in insertion order; its keys are distinct.

  The position sizes are Python floats. Every arithmetic operation of the function passes
  its result through the parameter \<open>rnd\<close>, the rounding of the arithmetic; the function as
  the interpreter runs it is the instance with \<open>round_f64\<close> below, where each operation
  rounds to the nearest double. \<open>py_sum\<close> is the built-in \<^verbatim>\<open>sum\<close>, adding from the left,
  starting at 0 (from Python 3.12 on, \<^verbatim>\<open>sum\<close> compensates the rounding errors of the
  partial sums of floats instead).
\<close>

record recommendation_entry =
  recommendation :: string
  position_size :: "real option"






text \<open>
  Rounding to the nearest IEEE 754 binary64 number, ties to even: 53 significant bits, the
  smallest exponent -1022 (so that subnormal numbers are multiples of \<open>2\<^sup>-\<^sup>1\<^sup>0\<^sup>7\<^sup>4\<close>). Overflow
  to infinity is not modelled. \<open>ilog2 a\<close> is the largest \<open>e\<close> with \<open>2\<^sup>e \<le> a\<close>, for a positive
  \<open>a\<close>.
\<close>

definition pow2 :: "int \<Rightarrow> real" where
  "pow2 e = (if 0 \<le> e then 2 ^ nat e else 1 / 2 ^ nat (- e))"

definition ilog2 :: "real \<Rightarrow> int" where
  "ilog2 a =
     (if 1 \<le> a then bitlen \<lfloor>a\<rfloor> - 1
      else (let m = bitlen \<lfloor>1 / a\<rfloor> - 1 in if a * 2 ^ nat m = 1 then - m else - m - 1))"

definition round_half_even :: "real \<Rightarrow> int" where
  "round_half_even y =
     (let f = \<lfloor>y\<rfloor>; d = y - of_int f
      in if d < 1 / 2 then f else if d > 1 / 2 then f + 1 else if even f then f else f + 1)"

definition round_f64 :: "real \<Rightarrow> real" where
  "round_f64 x =
     (if x = 0 then 0
      else
        let a = \<bar>x\<bar>;
            e = max (ilog2 a) (- 1022);
            q = pow2 (e - 52);
            n = round_half_even (a / q)
        in sgn x * of_int n * q)"








subsection \<open>Market trends (\<^verbatim>\<open>AnalysisAgent.analyze_market_trends\<close>)\<close>

text \<open>
  \<^verbatim>\<open>needle in haystack\<close> on strings: the needle occurs as a contiguous part.
\<close>

fun starts_with :: "string \<Rightarrow> string \<Rightarrow> bool" where
  "starts_with s [] = True"
| "starts_with [] (c # cs) = False"
| "starts_with (d # ds) (c # cs) = (d = c \<and> starts_with ds cs)"

fun str_contains :: "string \<Rightarrow> string \<Rightarrow> bool" where
  "str_contains [] needle = (needle = [])"
| "str_contains (c # cs) needle = (starts_with (c # cs) needle \<or> str_contains cs needle)"

text \<open>
  An entry of the market overview is a dictionary: an error entry has the key
  \<^verbatim>\<open>"error"\<close>, a data entry has \<^verbatim>\<open>"change_percent"\<close> (read with the default 0). The value
  under \<^verbatim>\<open>"market_indices"\<close> is what \<^verbatim>\<open>get_market_overview\<close> returns, a dictionary from the
  index name to its entry; a list of entries is the other collection the loop can run
  over. The loop \<^verbatim>\<open>for index_data in market_indices\<close> yields the keys of a dictionary and
  the elements of a list.
\<close>

record index_entry =
  index_error :: "string option"
  change_percent :: "real option"

datatype 'a py_collection = Py_dict "(string \<times> 'a) list" | Py_list "'a list"

datatype index_item = Key_item string | Entry_item index_entry

fun iterate :: "index_entry py_collection \<Rightarrow> index_item list" where
  "iterate (Py_dict items) = map (\<lambda>(k, v). Key_item k) items"
| "iterate (Py_list entries) = map Entry_item entries"

record sector_data =
  price_change_percent :: "real option"

record market_data =
  market_indices :: "index_entry py_collection"
  sector_performance :: "(string \<times> sector_data) list"

record market_analysis =
  market_trend :: string
  market_sentiment :: string
  sector_trends :: "(string \<times> string) list"
  leading_sectors :: "string list"
  lagging_sectors :: "string list"
  market_status :: string

text \<open>
  The loop over the indices, with the counters \<^verbatim>\<open>positive_indices\<close> and
  \<^verbatim>\<open>total_indices\<close>. On a key of a dictionary, \<^verbatim>\<open>"error" not in index_data\<close> is the
  substring test, and \<^verbatim>\<open>index_data.get\<close> raises \<^verbatim>\<open>AttributeError\<close>: a string has no
  \<^verbatim>\<open>get\<close>.
\<close>

fun count_indices :: "index_item list \<Rightarrow> nat \<times> nat \<Rightarrow> py_error + nat \<times> nat" where
  "count_indices [] (positive_indices, total_indices) = Inr (positive_indices, total_indices)"
| "count_indices (Key_item k # rest) (positive_indices, total_indices) =
     (if \<not> str_contains k ''error'' then Inl AttributeError
      else count_indices rest (positive_indices, total_indices))"
| "count_indices (Entry_item e # rest) (positive_indices, total_indices) =
     (if index_error e = None then
        (if (case change_percent e of None \<Rightarrow> 0 | Some c \<Rightarrow> c) > 0
         then count_indices rest (positive_indices + 1, total_indices + 1)
         else count_indices rest (positive_indices, total_indices + 1))
      else count_indices rest (positive_indices, total_indices))"

definition sector_change :: "sector_data \<Rightarrow> real" where
  "sector_change d = (case price_change_percent d of None \<Rightarrow> 0 | Some c \<Rightarrow> c)"

definition get_leading_sectors :: "(string \<times> sector_data) list \<Rightarrow> string list" where
  "get_leading_sectors sectors =
     map fst (take 3 (sort_key (\<lambda>(sector, d). - sector_change d) sectors))"

definition get_lagging_sectors :: "(string \<times> sector_data) list \<Rightarrow> string list" where
  "get_lagging_sectors sectors =
     map fst (take 3 (sort_key (\<lambda>(sector, d). sector_change d) sectors))"

text \<open>
  \<^verbatim>\<open>positive_ratio\<close> is assigned only when \<^verbatim>\<open>total_indices > 0\<close>; reading it unassigned in
  the returned dictionary raises \<^verbatim>\<open>UnboundLocalError\<close>. Every exception is caught and
  turned into \<^verbatim>\<open>{"error": str(e), "status": "failed"}\<close>, the left summand here.
\<close>

definition analyze_market_trends :: "market_data \<Rightarrow> py_error + market_analysis" where
  "analyze_market_trends md =
     (case count_indices (iterate (market_indices md)) (0, 0) of
        Inl e \<Rightarrow> Inl e
      | Inr (positive_indices, total_indices) \<Rightarrow>
          let positive_ratio =
                (if total_indices > 0
                 then Some (real positive_indices / real total_indices) else None);
              trend =
                (case positive_ratio of
                   None \<Rightarrow> ''neutral''
                 | Some r \<Rightarrow>
                     if r > 0.6 then ''bullish'' else if r < 0.4 then ''bearish'' else ''neutral'');
              trends =
                map (\<lambda>(sector, d).
                       (sector,
                        if sector_change d > 2 then ''strong_positive''
                        else if sector_change d > 0 then ''positive''
                        else if sector_change d > - 2 then ''neutral''
                        else ''negative''))
                  (sector_performance md)
          in case positive_ratio of
               None \<Rightarrow> Inl UnboundLocalError
             | Some r \<Rightarrow>
                 Inr \<lparr>market_trend = trend,
                      market_sentiment = (if r > 0.5 then ''bullish'' else ''bearish''),
                      sector_trends = trends,
                      leading_sectors = get_leading_sectors (sector_performance md),
                      lagging_sectors = get_lagging_sectors (sector_performance md),
                      market_status = ''success''\<rparr>)"

text \<open>
  The market data \<^verbatim>\<open>collect_market_data\<close> hands over once
  \<^verbatim>\<open>get_market_overview\<close> has fetched three indices, and the same entries as a list.
\<close>

definition overview_entries :: "(string \<times> index_entry) list" where
  "overview_entries =
     [(''S&P 500'', \<lparr>index_error = None, change_percent = Some 0.8\<rparr>),
      (''Dow Jones'', \<lparr>index_error = None, change_percent = Some 0.3\<rparr>),
      (''NASDAQ'', \<lparr>index_error = None, change_percent = Some (- 0.2)\<rparr>)]"

definition overview_market_data :: market_data where
  "overview_market_data =
     \<lparr>market_indices = Py_dict overview_entries,
      sector_performance = [(''Technology'', \<lparr>price_change_percent = Some 2.5\<rparr>)]\<rparr>"

text \<open>
  The fraction of the entries with a positive change, in the words of the specification.
\<close>

definition positive_fraction :: "index_entry list \<Rightarrow> real" where
  "positive_fraction es =
     real (length (filter (\<lambda>e. (case change_percent e of None \<Rightarrow> 0 | Some c \<Rightarrow> c) > 0) es))
       / real (length es)"

subsection \<open>Indicator engine (\<^verbatim>\<open>TechnicalAnalysisTool\<close>)\<close>

text \<open>
  The price history is the list of its bars, oldest first; a column of the data frame is the
  list of that field. The pandas operations are modelled at the positions the code reads:
  \<^item> \<^verbatim>\<open>s.rolling(window=w).mean().iloc[-1]\<close> is the mean of the last \<open>w\<close> values, and NaN
    (here \<open>None\<close>) when the series has fewer than \<open>w\<close> values; \<^verbatim>\<open>.std()\<close> likewise, with
    the sample standard deviation;
  \<^item> \<^verbatim>\<open>s.ewm(span=n).mean()\<close> is the weighted mean with weights \<open>(1 - \<alpha>)\<^sup>i\<close> for the value
    \<open>i\<close> steps back, \<open>\<alpha> = 2 / (n + 1)\<close>;
  \<^item> \<^verbatim>\<open>.iloc[-1]\<close> on an empty series raises \<^verbatim>\<open>IndexError\<close>;
  \<^item> \<^verbatim>\<open>convert_to_native_type\<close> turns NaN into \<^verbatim>\<open>None\<close>, and comparing or subtracting
    \<^verbatim>\<open>None\<close> raises \<^verbatim>\<open>TypeError\<close>.
  The input prices and volumes are numbers (no NaN among them).
\<close>

record price_bar =
  bar_open :: real
  bar_high :: real
  bar_low :: real
  bar_close :: real
  bar_volume :: real

definition rolling_mean_last :: "nat \<Rightarrow> real list \<Rightarrow> real option" where
  "rolling_mean_last w xs =
     (if length xs < w then None
      else Some (sum_list (drop (length xs - w) xs) / real w))"

definition rolling_std_last :: "nat \<Rightarrow> real list \<Rightarrow> real option" where
  "rolling_std_last w xs =
     (if length xs < w then None
      else
        let window = drop (length xs - w) xs;
            mean = sum_list window / real w
        in Some (sqrt (sum_list (map (\<lambda>x. (x - mean)\<^sup>2) window) / (real w - 1))))"

definition ewm_mean_last :: "nat \<Rightarrow> real list \<Rightarrow> real" where
  "ewm_mean_last n xs =
     (let alpha = 2 / (real n + 1);
          weights = map (\<lambda>i. (1 - alpha) ^ i) [0..<length xs]
      in sum_list (map2 (*) weights (rev xs)) / sum_list weights)"

definition ewm_mean :: "nat \<Rightarrow> real list \<Rightarrow> real list" where
  "ewm_mean n xs = map (\<lambda>k. ewm_mean_last n (take (Suc k) xs)) [0..<length xs]"

record moving_averages =
  sma_20 :: "real option"
  sma_50 :: "real option"
  sma_200 :: "real option"
  ema_12 :: real
  ema_26 :: real
  ma_signals :: "string list"

definition calculate_moving_averages :: "price_bar list \<Rightarrow> py_error + moving_averages" where
  "calculate_moving_averages df =
     (let close_prices = map bar_close df in
      if close_prices = [] then Inl IndexError
      else
        let s20 = rolling_mean_last 20 close_prices;
            s50 = rolling_mean_last 50 close_prices;
            s200 = rolling_mean_last 200 close_prices;
            e12 = last (ewm_mean 12 close_prices);
            e26 = last (ewm_mean 26 close_prices);
            current_price = last close_prices;
            signals =
              (case s20 of
                 None \<Rightarrow> []
               | Some m \<Rightarrow>
                   if m \<noteq> 0 \<and> current_price > m then [''Price above 20-day SMA (bullish)'']
                   else if m \<noteq> 0 \<and> current_price < m then [''Price below 20-day SMA (bearish)'']
                   else []);
            signals = signals @
              (case (s50, s200) of
                 (Some m50, Some m200) \<Rightarrow>
                   if m50 \<noteq> 0 \<and> m200 \<noteq> 0 then
                     (if m50 > m200
                      then [''Golden Cross: 50-day SMA above 200-day SMA (bullish)'']
                      else [''Death Cross: 50-day SMA below 200-day SMA (bearish)''])
                   else []
               | _ \<Rightarrow> [])
        in Inr \<lparr>sma_20 = s20, sma_50 = s50, sma_200 = s200, ema_12 = e12, ema_26 = e26,
                ma_signals = signals\<rparr>)"

text \<open>
  RSI. \<^verbatim>\<open>delta = close_prices.diff()\<close> starts with NaN, and
  \<^verbatim>\<open>delta.where(delta > 0, 0)\<close> replaces every entry that is not positive, the NaN too, by
  0; so the gains and the losses have one entry per bar. \<open>avg_gain\<close> and \<open>avg_loss\<close> are the
  last entries of the series \<^verbatim>\<open>gain\<close> and \<^verbatim>\<open>loss\<close>.

  \<^verbatim>\<open>rs = gain / loss\<close> and \<^verbatim>\<open>rsi = 100 - (100 / (1 + rs))\<close> are pandas operations and follow
  IEEE 754: with loss 0 and gain not 0, \<open>rs\<close> is infinite, \<open>100 / (1 + rs)\<close> is 0 and the RSI is
  100; with loss 0 and gain 0, \<open>rs\<close> and the RSI are NaN.
\<close>

definition gains :: "real list \<Rightarrow> real list" where
  "gains close_prices =
     (case close_prices of
        [] \<Rightarrow> []
      | _ # _ \<Rightarrow> 0 # map (\<lambda>d. if d > 0 then d else 0) (np_diff close_prices))"

definition losses :: "real list \<Rightarrow> real list" where
  "losses close_prices =
     (case close_prices of
        [] \<Rightarrow> []
      | _ # _ \<Rightarrow> 0 # map (\<lambda>d. - (if d < 0 then d else 0)) (np_diff close_prices))"

definition avg_gain :: "real list \<Rightarrow> real option" where
  "avg_gain close_prices = rolling_mean_last 14 (gains close_prices)"

definition avg_loss :: "real list \<Rightarrow> real option" where
  "avg_loss close_prices = rolling_mean_last 14 (losses close_prices)"

definition rsi_value :: "real option \<Rightarrow> real option \<Rightarrow> real option" where
  "rsi_value gain loss =
     (case (gain, loss) of
        (Some g, Some l) \<Rightarrow>
          if l = 0 then (if g = 0 then None else Some 100)
          else Some (100 - 100 / (1 + g / l))
      | _ \<Rightarrow> None)"

text \<open>
  The arithmetic of \<open>rsi_value\<close> is exact. On doubles each of the four operations of the
  two lines rounds; \<open>rsi_f64\<close> is their result for a loss that is not 0. When \<open>g / l\<close> is
  large, \<open>100 / (1 + rs)\<close> is below half the spacing of the doubles at 100, and the
  subtraction gives exactly 100.
\<close>

definition rsi_f64 :: "real \<Rightarrow> real \<Rightarrow> real" where
  "rsi_f64 g l = round_f64 (100 - round_f64 (100 / round_f64 (1 + round_f64 (g / l))))"

record rsi_result =
  current_rsi :: real
  rsi_signals :: "string list"
  rsi_interpretation :: string

definition calculate_rsi :: "price_bar list \<Rightarrow> py_error + rsi_result" where
  "calculate_rsi df =
     (let close_prices = map bar_close df in
      if close_prices = [] then Inl IndexError
      else
        case rsi_value (avg_gain close_prices) (avg_loss close_prices) of
          None \<Rightarrow> Inl TypeError
        | Some r \<Rightarrow>
            Inr \<lparr>current_rsi = r,
                 rsi_signals =
                   [if r > 70 then ''RSI indicates overbought condition''
                    else if r < 30 then ''RSI indicates oversold condition''
                    else ''RSI in neutral range''],
                 rsi_interpretation =
                   (if r > 70 then ''overbought'' else if r < 30 then ''oversold''
                    else ''neutral'')\<rparr>)"

record macd_result =
  macd_line :: real
  signal_line :: real
  histogram :: real
  macd_signals :: "string list"

definition calculate_macd :: "price_bar list \<Rightarrow> py_error + macd_result" where
  "calculate_macd df =
     (let close_prices = map bar_close df in
      if close_prices = [] then Inl IndexError
      else
        let line = map2 (-) (ewm_mean 12 close_prices) (ewm_mean 26 close_prices);
            sig_line = ewm_mean 9 line;
            hist = map2 (-) line sig_line;
            current_macd = last line;
            current_signal = last sig_line;
            current_histogram = last hist;
            signals =
              [if current_macd > current_signal then ''MACD above signal line (bullish)''
               else ''MACD below signal line (bearish)''];
            signals = signals @
              (if length hist > 1 then
                 [if current_histogram > hist ! (length hist - 2)
                  then ''MACD histogram increasing (momentum building)''
                  else ''MACD histogram decreasing (momentum weakening)'']
               else [])
        in Inr \<lparr>macd_line = current_macd, signal_line = current_signal,
                histogram = current_histogram, macd_signals = signals\<rparr>)"

record bollinger_bands =
  upper_band :: real
  middle_band :: "real option"
  lower_band :: real
  bb_current_price :: real
  band_position :: real
  bb_signals :: "string list"

definition calculate_bollinger_bands :: "price_bar list \<Rightarrow> py_error + bollinger_bands" where
  "calculate_bollinger_bands df =
     (let close_prices = map bar_close df in
      if close_prices = [] then Inl IndexError
      else
        let sma = rolling_mean_last 20 close_prices;
            std = rolling_std_last 20 close_prices;
            current_price = last close_prices
        in case (sma, std) of
             (Some m, Some sd) \<Rightarrow>
               let current_upper = m + sd * 2;
                   current_lower = m - sd * 2;
                   band_width = current_upper - current_lower;
                   pos = (if band_width > 0 then (current_price - current_lower) / band_width
                          else 0.5)
               in Inr \<lparr>upper_band = current_upper, middle_band = sma,
                       lower_band = current_lower, bb_current_price = current_price,
                       band_position = pos,
                       bb_signals =
                         [if current_price > current_upper
                          then ''Price above upper Bollinger Band (potentially overbought)''
                          else if current_price < current_lower
                          then ''Price below lower Bollinger Band (potentially oversold)''
                          else ''Price within Bollinger Bands (normal range)'']\<rparr>
           | _ \<Rightarrow> Inl TypeError)"

record support_resistance =
  resistance_level :: real
  support_level :: real
  sr_current_price :: real
  distance_to_resistance_pct :: real
  distance_to_support_pct :: real
  sr_signals :: "string list"

definition tail :: "nat \<Rightarrow> 'a list \<Rightarrow> 'a list" where
  "tail n xs = drop (length xs - n) xs"

definition find_support_resistance :: "price_bar list \<Rightarrow> py_error + support_resistance" where
  "find_support_resistance df =
     (if df = [] then Inl IndexError
      else
        let recent_high = Max (set (tail 20 (map bar_high df)));
            recent_low = Min (set (tail 20 (map bar_low df)));
            current_price = last (map bar_close df)
        in if current_price = 0 then Inl ZeroDivisionError
           else
             let resistance_distance = (recent_high - current_price) / current_price * 100;
                 support_distance = (current_price - recent_low) / current_price * 100
             in Inr \<lparr>resistance_level = recent_high, support_level = recent_low,
                     sr_current_price = current_price,
                     distance_to_resistance_pct = resistance_distance,
                     distance_to_support_pct = support_distance,
                     sr_signals =
                       (if resistance_distance < 2 then [''Price near resistance level''] else [])
                       @ (if support_distance < 2 then [''Price near support level''] else [])\<rparr>)"

text \<open>
  \<^verbatim>\<open>close_prices.pct_change().iloc[-1] > 0\<close>: the change is NaN, hence \<^verbatim>\<open>None\<close>, for a
  single bar and for 0 / 0; after a close of 0 it is infinite with the sign of the last
  close.
\<close>

definition price_change_positive :: "real list \<Rightarrow> py_error + bool" where
  "price_change_positive close_prices =
     (if length close_prices < 2 then Inl TypeError
      else
        let c = last close_prices; p = close_prices ! (length close_prices - 2)
        in if p = 0 then (if c = 0 then Inl TypeError else Inr (c > 0))
           else Inr (c / p - 1 > 0))"

record volume_analysis =
  current_volume :: real
  average_volume :: real
  volume_ratio :: real
  volume_signals :: "string list"

definition analyze_volume :: "price_bar list \<Rightarrow> py_error + volume_analysis" where
  "analyze_volume df =
     (if df = [] then Inl IndexError
      else
        case rolling_mean_last 20 (map bar_volume df) of
          None \<Rightarrow> Inl TypeError
        | Some avg_volume \<Rightarrow>
            let cur_volume = last (map bar_volume df);
                ratio = (if avg_volume > 0 then cur_volume / avg_volume else 1)
            in if ratio > 1.5 then
                 (case price_change_positive (map bar_close df) of
                    Inl e \<Rightarrow> Inl e
                  | Inr up \<Rightarrow>
                      Inr \<lparr>current_volume = cur_volume, average_volume = avg_volume,
                           volume_ratio = ratio,
                           volume_signals =
                             [''High volume activity'',
                              if up then ''High volume with price increase (bullish)''
                              else ''High volume with price decrease (bearish)'']\<rparr>)
               else
                 Inr \<lparr>current_volume = cur_volume, average_volume = avg_volume,
                      volume_ratio = ratio,
                      volume_signals =
                        (if ratio < 0.5 then [''Low volume activity''] else [])\<rparr>)"

text \<open>The signal tally. \<^verbatim>\<open>signal.lower()\<close> on the ASCII texts of the signals.\<close>

definition lower_char :: "char \<Rightarrow> char" where
  "lower_char c =
     (let n = (of_char c :: nat) in if 65 \<le> n \<and> n \<le> 90 then char_of (n + 32) else c)"

definition str_lower :: "string \<Rightarrow> string" where
  "str_lower s = map lower_char s"

fun tally :: "string list \<Rightarrow> nat \<times> nat \<Rightarrow> nat \<times> nat" where
  "tally [] (bullish_signals, bearish_signals) = (bullish_signals, bearish_signals)"
| "tally (signal # rest) (bullish_signals, bearish_signals) =
     (let signal_lower = str_lower signal in
      if list_ex (str_contains signal_lower) [''bullish'', ''above'', ''increasing'', ''oversold'']
      then tally rest (bullish_signals + 1, bearish_signals)
      else if list_ex (str_contains signal_lower)
                [''bearish'', ''below'', ''decreasing'', ''overbought'']
      then tally rest (bullish_signals, bearish_signals + 1)
      else tally rest (bullish_signals, bearish_signals))"

definition get_recommendation :: "string \<Rightarrow> real \<Rightarrow> string" where
  "get_recommendation signal conf =
     (if signal = ''BULLISH'' \<and> conf > 0.7 then ''STRONG BUY''
      else if signal = ''BULLISH'' \<and> conf > 0.6 then ''BUY''
      else if signal = ''BEARISH'' \<and> conf > 0.7 then ''STRONG SELL''
      else if signal = ''BEARISH'' \<and> conf > 0.6 then ''SELL''
      else ''HOLD'')"

record technical_indicators =
  ind_moving_averages :: moving_averages
  ind_rsi :: rsi_result
  ind_macd :: macd_result
  ind_bollinger_bands :: bollinger_bands
  ind_support_resistance :: support_resistance
  ind_volume_analysis :: volume_analysis

record generated_signals =
  gen_overall_signal :: string
  gen_confidence :: real
  bullish_indicators :: nat
  bearish_indicators :: nat
  gen_recommendation :: string

definition generate_signals :: "technical_indicators \<Rightarrow> generated_signals" where
  "generate_signals indicators =
     (case tally (ma_signals (ind_moving_averages indicators)
                  @ rsi_signals (ind_rsi indicators)
                  @ macd_signals (ind_macd indicators)
                  @ bb_signals (ind_bollinger_bands indicators)
                  @ sr_signals (ind_support_resistance indicators)
                  @ volume_signals (ind_volume_analysis indicators)) (0, 0) of
        (bullish_signals, bearish_signals) \<Rightarrow>
          let (overall, conf) =
                (if bullish_signals > bearish_signals then
                   (''BULLISH'',
                    min (real bullish_signals / real (bullish_signals + bearish_signals)) 1.0)
                 else if bearish_signals > bullish_signals then
                   (''BEARISH'',
                    min (real bearish_signals / real (bullish_signals + bearish_signals)) 1.0)
                 else (''NEUTRAL'', 0.5))
          in \<lparr>gen_overall_signal = overall, gen_confidence = conf,
               bullish_indicators = bullish_signals, bearish_indicators = bearish_signals,
               gen_recommendation = get_recommendation overall conf\<rparr>)"

text \<open>
  \<^verbatim>\<open>analyze_stock\<close>. The stock data come from the data tool: an error dictionary, or the
  history with the current price. The six indicators are computed in the order of the
  code inside one \<^verbatim>\<open>try\<close> block; an exception of any of them ends the analysis with the
  result \<^verbatim>\<open>{"error": "Technical analysis failed: ..."}\<close>. The \<^verbatim>\<open>summary\<close> text of the
  result is a formatted string and is not part of the model.
\<close>

datatype stock_data = Fetch_error string | Fetched "price_bar list" "real option"

datatype analysis_error =
    Upstream_error string
  | No_historical_data
  | Analysis_failed py_error

record technical_analysis =
  ta_current_price :: "real option"
  ta_indicators :: technical_indicators
  ta_trading_signals :: generated_signals

definition compute_indicators :: "price_bar list \<Rightarrow> py_error + technical_indicators" where
  "compute_indicators hist_data =
     (case calculate_moving_averages hist_data of Inl e \<Rightarrow> Inl e | Inr ma \<Rightarrow>
      case calculate_rsi hist_data of Inl e \<Rightarrow> Inl e | Inr rsi \<Rightarrow>
      case calculate_macd hist_data of Inl e \<Rightarrow> Inl e | Inr macd \<Rightarrow>
      case calculate_bollinger_bands hist_data of Inl e \<Rightarrow> Inl e | Inr bb \<Rightarrow>
      case find_support_resistance hist_data of Inl e \<Rightarrow> Inl e | Inr sr \<Rightarrow>
      case analyze_volume hist_data of Inl e \<Rightarrow> Inl e | Inr vol \<Rightarrow>
        Inr \<lparr>ind_moving_averages = ma, ind_rsi = rsi, ind_macd = macd,
             ind_bollinger_bands = bb, ind_support_resistance = sr,
             ind_volume_analysis = vol\<rparr>)"

definition analyze_stock :: "stock_data \<Rightarrow> analysis_error + technical_analysis" where
  "analyze_stock fetched =
     (case fetched of
        Fetch_error msg \<Rightarrow> Inl (Upstream_error msg)
      | Fetched hist_data price \<Rightarrow>
          if hist_data = [] then Inl No_historical_data
          else
            case compute_indicators hist_data of
              Inl e \<Rightarrow> Inl (Analysis_failed e)
            | Inr indicators \<Rightarrow>
                Inr \<lparr>ta_current_price = price,
                     ta_indicators = indicators,
                     ta_trading_signals = generate_signals indicators\<rparr>)"

text \<open>
  Series used as examples: every bar of a series has the given close. \<open>flat_series\<close> is
  thirty bars that all close at 50 (an instrument that does not trade, or is pegged);
  \<open>short_series\<close> is a history of five bars (a five-day period, or a stock listed last
  week).
\<close>

definition flat_bar :: "real \<Rightarrow> price_bar" where
  "flat_bar c = \<lparr>bar_open = c, bar_high = c, bar_low = c, bar_close = c, bar_volume = 1000\<rparr>"

definition rising_bars :: "price_bar list" where
  "rising_bars = map flat_bar [1, 2, 3, 4, 5, 6, 7, 8, 9, 10, 11, 12, 13, 14]"

definition mixed_bars :: "price_bar list" where
  "mixed_bars = map flat_bar [10, 11, 10, 11, 10, 11, 10, 11, 10, 11, 10, 11, 10, 11, 10]"

definition flat_series :: "price_bar list" where
  "flat_series =
     map flat_bar [50, 50, 50, 50, 50, 50, 50, 50, 50, 50, 50, 50, 50, 50, 50,
                   50, 50, 50, 50, 50, 50, 50, 50, 50, 50, 50, 50, 50, 50, 50]"

definition short_series :: "price_bar list" where
  "short_series = map flat_bar [100, 101, 102, 103, 104]"

text \<open>
  The change of the score made by one block of the scorer, used to relate the sequential
  updates of the code to the rule table.
\<close>

definition adj_pe :: "real option \<Rightarrow> int" where
  "adj_pe x =
     (case x of
        None \<Rightarrow> 0
      | Some pe \<Rightarrow>
          if pe \<noteq> 0 then
            (if 10 \<le> pe \<and> pe \<le> 20 then 10 else if pe < 10 \<or> pe > 30 then - 10 else 0)
          else 0)"

definition adj :: "real option \<Rightarrow> (real \<Rightarrow> bool) \<Rightarrow> int \<Rightarrow> (real \<Rightarrow> bool) \<Rightarrow> int \<Rightarrow> int" where
  "adj x P a Q b =
     (case x of
        None \<Rightarrow> 0
      | Some v \<Rightarrow> if v \<noteq> 0 \<and> P v then a else if v \<noteq> 0 \<and> Q v then b else 0)"

section \<open>Properties\<close>

subsection \<open>Recommendation synthesizer\<close>

lemma action_rank_generate:
  "action_rank (action (generate_stock_recommendation s c f r)) =
     Some (let x = combined_score s c f r in
           if x \<ge> 70 then 4 else if x \<ge> 60 then 3 else if x \<ge> 40 then 2
           else if x \<ge> 30 then 1 else 0)"
  by (simp add: generate_stock_recommendation_def action_rank_def Let_def)

text \<open>
  C4. The action is monotone in the combined score: if the combined score of a first input
  is at most that of a second, the action of the second is not a strictly less bullish tier
  than the action of the first. Every action produced is one of the five ranked tiers.
\<close>

theorem action_monotone_in_combined_score:
  assumes "combined_score s1 c1 f1 r1 \<le> combined_score s2 c2 f2 r2"
  shows "\<not> less_bullish (action (generate_stock_recommendation s2 c2 f2 r2))
                         (action (generate_stock_recommendation s1 c1 f1 r1))
         \<and> action_rank (action (generate_stock_recommendation s1 c1 f1 r1)) \<noteq> None
         \<and> action_rank (action (generate_stock_recommendation s2 c2 f2 r2)) \<noteq> None"
  using assms
  by (simp add: less_bullish_def action_rank_generate Let_def)

theorem action_monotone_in_combined_score_witness:
  "combined_score ''NEUTRAL'' 0.5 50 85 \<le> combined_score ''BULLISH'' 1 100 0
   \<and> action (generate_stock_recommendation ''NEUTRAL'' 0.5 50 85) = ''SELL''
   \<and> action (generate_stock_recommendation ''BULLISH'' 1 100 0) = ''STRONG_BUY''
   \<and> \<not> less_bullish (action (generate_stock_recommendation ''BULLISH'' 1 100 0))
                      (action (generate_stock_recommendation ''NEUTRAL'' 0.5 50 85))"
proof -
  have le: "combined_score ''NEUTRAL'' 0.5 50 85 \<le> combined_score ''BULLISH'' 1 100 0"
    by (simp add: combined_score_def)
  from action_monotone_in_combined_score [OF le] show ?thesis
    by (simp add: combined_score_def generate_stock_recommendation_def)
qed

text \<open>
  C9. Scenario D: risk score 85, technical signal NEUTRAL with confidence 0.5 and
  fundamental score 50 give the combined score 0.4 * 25 + 0.4 * 50 + 0.2 * 15 = 33 and the
  action SELL.
\<close>

theorem scenario_D_combined_33_sell:
  "combined_score ''NEUTRAL'' 0.5 50 85 = 0.4 * 25 + 0.4 * 50 + 0.2 * 15
   \<and> combined_score ''NEUTRAL'' 0.5 50 85 = 33
   \<and> action (generate_stock_recommendation ''NEUTRAL'' 0.5 50 85) = ''SELL''"
  by (simp add: combined_score_def generate_stock_recommendation_def)

text \<open>
  C10. For a risk score in [0,100] and a confidence in [0,1] the position size lies in
  [1,10]; the upper clamp 25 is not reached.
\<close>

theorem position_size_between_1_and_10:
  assumes "0 \<le> risk" "risk \<le> 100" "0 \<le> conf" "conf \<le> 1"
  shows "1 \<le> calculate_position_size risk conf
         \<and> calculate_position_size risk conf \<le> 10
         \<and> calculate_position_size risk conf < 25"
proof -
  define m :: real where "m = max (1 / 5) ((100 - risk) / 100)"
  define p :: real where "p = m * conf"
  have m: "0 \<le> m" "m \<le> 1" using assms by (simp_all add: m_def)
  have "m * conf \<le> 1 * 1" using m assms by (intro mult_mono) simp_all
  then have le: "p \<le> 1" by (simp add: p_def)
  have "calculate_position_size risk conf = min (max (10 * p) 1) 25"
    by (simp add: calculate_position_size_def Let_def m_def p_def mult.assoc)
  with le show ?thesis by (auto simp: min_def max_def)
qed

theorem position_size_between_1_and_10_witness:
  "(0::real) \<le> 40 \<and> (40::real) \<le> 100 \<and> (0::real) \<le> 0.5 \<and> (0.5::real) \<le> 1
   \<and> calculate_position_size 40 0.5 = 3
   \<and> 1 \<le> calculate_position_size 40 0.5 \<and> calculate_position_size 40 0.5 \<le> 10"
  using position_size_between_1_and_10 [of 40 "0.5"]
  by (simp add: calculate_position_size_def)

subsection \<open>Fundamental scorer\<close>

lemma step_pe:
  "(case x of
      None \<Rightarrow> s
    | Some pe \<Rightarrow>
        if pe \<noteq> 0 then
          (if 10 \<le> pe \<and> pe \<le> 20 then s + 10 else if pe < 10 \<or> pe > 30 then s - 10 else s)
        else s)
   = s + adj_pe x"
  by (cases x) (simp_all add: adj_pe_def)

lemma step_adj:
  "(case x of
      None \<Rightarrow> s
    | Some v \<Rightarrow> if v \<noteq> 0 \<and> P v then s + a else if v \<noteq> 0 \<and> Q v then s - b else s)
   = s + adj x P a Q (- b)"
  by (cases x) (simp_all add: adj_def)

lemma score_as_adjustments:
  "calculate_fundamental_score m =
     max 0 (min 100 (50 + adj_pe (pe_ratio m)
       + adj (return_on_equity m) (\<lambda>v. v > 0.15) 15 (\<lambda>v. v < 0.05) (- 15)
       + adj (profit_margin m) (\<lambda>v. v > 0.1) 10 (\<lambda>v. v < 0) (- 20)
       + adj (debt_to_equity m) (\<lambda>v. v < 0.5) 10 (\<lambda>v. v > 2) (- 15)
       + adj (current_ratio m) (\<lambda>v. v > 1.5) 5 (\<lambda>v. v < 1) (- 10)))"
  unfolding calculate_fundamental_score_def Let_def
  by (simp only: step_pe step_adj)

lemma sum_filter_if:
  "sum_list (map f (filter P xs)) = (\<Sum>x\<leftarrow>xs. if P x then f x else (0::int))"
  by (induction xs) simp_all

lemma pe_rules:
  "(if rule_added m (PE, \<lambda>v. 10 \<le> v \<and> v \<le> 20, 10) then 10 else 0)
     + (if rule_added m (PE, \<lambda>v. v < 10 \<or> v > 30, - 10) then - 10 else 0)
   = adj_pe (pe_ratio m)"
  by (cases "pe_ratio m") (auto simp: adj_pe_def truthy_def)

lemma two_rules:
  assumes "\<And>v. \<not> (P v \<and> Q v)"
  shows "(if rule_added m (f, P, a) then a else 0) + (if rule_added m (f, Q, b) then b else 0)
         = adj (field_value m f) P a Q b"
  using assms by (cases "field_value m f") (auto simp: adj_def truthy_def)

lemma added_total_as_adjustments:
  "added_total m =
     adj_pe (pe_ratio m)
       + adj (return_on_equity m) (\<lambda>v. v > 0.15) 15 (\<lambda>v. v < 0.05) (- 15)
       + adj (profit_margin m) (\<lambda>v. v > 0.1) 10 (\<lambda>v. v < 0) (- 20)
       + adj (debt_to_equity m) (\<lambda>v. v < 0.5) 10 (\<lambda>v. v > 2) (- 15)
       + adj (current_ratio m) (\<lambda>v. v > 1.5) 5 (\<lambda>v. v < 1) (- 10)"
proof -
  have "added_total m =
     ((if rule_added m (PE, \<lambda>v. 10 \<le> v \<and> v \<le> 20, 10) then 10 else 0)
       + (if rule_added m (PE, \<lambda>v. v < 10 \<or> v > 30, - 10) then - 10 else 0))
   + ((if rule_added m (ROE, \<lambda>v. v > 0.15, 15) then 15 else 0)
       + (if rule_added m (ROE, \<lambda>v. v < 0.05, - 15) then - 15 else 0))
   + ((if rule_added m (Profit_margin, \<lambda>v. v > 0.10, 10) then 10 else 0)
       + (if rule_added m (Profit_margin, \<lambda>v. v < 0, - 20) then - 20 else 0))
   + ((if rule_added m (Debt_to_equity, \<lambda>v. v < 0.5, 10) then 10 else 0)
       + (if rule_added m (Debt_to_equity, \<lambda>v. v > 2, - 15) then - 15 else 0))
   + ((if rule_added m (Current_ratio, \<lambda>v. v > 1.5, 5) then 5 else 0)
       + (if rule_added m (Current_ratio, \<lambda>v. v < 1, - 10) then - 10 else 0))"
    unfolding added_total_def rule_table_def sum_filter_if
    by (simp only: list.map sum_list.Cons sum_list.Nil rule_delta.simps add_0_right add.assoc)
  also have "\<dots> =
     adj_pe (pe_ratio m)
       + adj (field_value m ROE) (\<lambda>v. v > 0.15) 15 (\<lambda>v. v < 0.05) (- 15)
       + adj (field_value m Profit_margin) (\<lambda>v. v > 0.1) 10 (\<lambda>v. v < 0) (- 20)
       + adj (field_value m Debt_to_equity) (\<lambda>v. v < 0.5) 10 (\<lambda>v. v > 2) (- 15)
       + adj (field_value m Current_ratio) (\<lambda>v. v > 1.5) 5 (\<lambda>v. v < 1) (- 10)"
    unfolding pe_rules
    by (subst two_rules, simp)+ simp
  finally show ?thesis by simp
qed

lemma calculate_fundamental_score_sum:
  "calculate_fundamental_score m = max 0 (min 100 (50 + added_total m))"
  by (simp only: score_as_adjustments added_total_as_adjustments add.assoc)

lemma rule_added_holds: "rule_added m r \<Longrightarrow> rule_holds m r"
  by (cases r) simp

text \<open>
  C1. The fundamental score lies in [0,100] whatever fields are present or absent. It is the
  base 50 plus the changes of the table rules that the code adds, clamped to [0,100], and
  a rule is added only when its field is present and its condition holds.
\<close>

theorem fundamental_score_in_range:
  "0 \<le> calculate_fundamental_score m
   \<and> calculate_fundamental_score m \<le> 100
   \<and> calculate_fundamental_score m =
       max 0 (min 100 (50 + sum_list (map rule_delta (filter (rule_added m) rule_table))))
   \<and> (\<forall>r \<in> set rule_table. rule_added m r \<longrightarrow> rule_holds m r)"
proof -
  have "calculate_fundamental_score m =
          max 0 (min 100 (50 + sum_list (map rule_delta (filter (rule_added m) rule_table))))"
    using calculate_fundamental_score_sum [of m] by (simp only: added_total_def)
  moreover from this have "0 \<le> calculate_fundamental_score m"
    and "calculate_fundamental_score m \<le> 100"
    by linarith+
  ultimately show ?thesis
    using rule_added_holds by blast
qed

theorem fundamental_score_in_range_witness:
  "calculate_fundamental_score
      \<lparr>pe_ratio = Some 15, return_on_equity = Some 0.20, profit_margin = Some 0.12,
       debt_to_equity = Some 0.3, current_ratio = Some 2.0\<rparr> = 100
   \<and> calculate_fundamental_score
      \<lparr>pe_ratio = Some 40, return_on_equity = Some 0, profit_margin = Some (- 0.1),
       debt_to_equity = None, current_ratio = Some 0.5\<rparr> = 10
   \<and> rule_holds
      \<lparr>pe_ratio = Some 40, return_on_equity = Some 0, profit_margin = Some (- 0.1),
       debt_to_equity = None, current_ratio = Some 0.5\<rparr> (PE, \<lambda>v. v < 10 \<or> v > 30, - 10)"
  using fundamental_score_in_range
    [of "\<lparr>pe_ratio = Some 40, return_on_equity = Some 0, profit_margin = Some (- 0.1),
          debt_to_equity = None, current_ratio = Some 0.5\<rparr>"]
  by (simp add: calculate_fundamental_score_def rule_table_def)

subsection \<open>Fallback risk estimator\<close>

lemma foldl_update_lookup:
  "foldl (\<lambda>acc k. acc(k \<mapsto> f k)) m ks k = (if k \<in> set ks then Some (f k) else m k)"
  by (induction ks arbitrary: m) auto

lemma fallback_lookup:
  "risk_metrics_of (generate_fallback_risk_metrics symbols ta) symbol =
     (if symbol \<in> set symbols then Some (fallback_entry (ta symbol)) else None)"
  by (simp add: generate_fallback_risk_metrics_def foldl_update_lookup)

lemma fallback_entry_metrics:
  assumes "\<not> has_error looked_up"
  shows "\<exists>m. fallback_entry looked_up = Risk_metrics m
             \<and> fallback_cases (signal_of looked_up) (confidence_of looked_up) (risk_score m)
             \<and> estimation_note m \<noteq> None"
  using assms
  by (cases looked_up)
     (simp_all add: fallback_entry_def has_error_def signal_of_def confidence_of_def
        fallback_cases_def Let_def)

text \<open>
  C8. For every requested symbol whose technical analysis is not an error, the fallback
  estimator returns metrics whose risk score follows the four cases (BULLISH with
  confidence above 0.7 gives 35, BEARISH with confidence above 0.7 gives 75, otherwise
  confidence below 0.3 gives 65, and 50 in every other case), and the metrics carry the
  estimation note. The call itself always succeeds.
\<close>

theorem fallback_risk_score_cases:
  "status (generate_fallback_risk_metrics symbols ta) = ''success''
   \<and> (\<forall>symbol \<in> set symbols. \<not> has_error (ta symbol) \<longrightarrow>
        (\<exists>m. risk_metrics_of (generate_fallback_risk_metrics symbols ta) symbol
                = Some (Risk_metrics m)
             \<and> fallback_cases (signal_of (ta symbol)) (confidence_of (ta symbol)) (risk_score m)
             \<and> estimation_note m \<noteq> None))"
  using fallback_entry_metrics
  by (simp add: fallback_lookup) (simp add: generate_fallback_risk_metrics_def)

theorem fallback_risk_score_cases_witness:
  "''AAPL'' \<in> set [''AAPL'', ''MSFT'']
   \<and> \<not> has_error
         ([''AAPL'' \<mapsto> \<lparr>tech_error = None,
             tech_trading_signals =
               Some \<lparr>overall_signal = Some ''BULLISH'', signal_confidence = Some 0.8\<rparr>\<rparr>]
          ''AAPL'')
   \<and> (\<exists>m. risk_metrics_of
              (generate_fallback_risk_metrics [''AAPL'', ''MSFT'']
                 [''AAPL'' \<mapsto> \<lparr>tech_error = None,
                    tech_trading_signals =
                      Some \<lparr>overall_signal = Some ''BULLISH'', signal_confidence = Some 0.8\<rparr>\<rparr>])
              ''AAPL'' = Some (Risk_metrics m)
            \<and> risk_score m = 35 \<and> estimation_note m \<noteq> None)"
  using fallback_risk_score_cases
    [of "[''AAPL'', ''MSFT'']"
        "[''AAPL'' \<mapsto> \<lparr>tech_error = None,
            tech_trading_signals =
              Some \<lparr>overall_signal = Some ''BULLISH'', signal_confidence = Some 0.8\<rparr>\<rparr>]"]
  by (simp add: has_error_def signal_of_def confidence_of_def fallback_cases_def)

subsection \<open>Risk engine\<close>

lemma fold_min_le: "fold min xs (x::real) \<le> x"
proof (induction xs arbitrary: x)
  case Nil
  show ?case by simp
next
  case (Cons a xs)
  have "fold min xs (min a x) \<le> min a x" by (rule Cons.IH)
  then show ?case by simp
qed

lemma np_std_nonneg: "0 \<le> np_std xs"
proof -
  have "0 \<le> sum_list (map (\<lambda>x. (x - np_mean xs)\<^sup>2) xs)"
    by (rule sum_list_nonneg) auto
  then show ?thesis
    by (simp add: np_std_def np_mean_def [of "map f xs" for f])
qed

lemma drawdown_head:
  "prices \<noteq> [] \<Longrightarrow> \<exists>ds. map2 (\<lambda>p k. (p - k) / k) prices (maximum_accumulate prices) = 0 # ds"
  by (cases prices) (simp_all add: maximum_accumulate_def)

lemma max_drawdown_nonpos:
  "case calculate_max_drawdown prices of Inr d \<Rightarrow> d \<le> 0 | Inl e \<Rightarrow> prices = [] \<and> e = ValueError"
proof (cases prices)
  case Nil
  then show ?thesis
    by (simp add: calculate_max_drawdown_def maximum_accumulate_def np_min_def)
next
  case (Cons p ps)
  then obtain ds where "map2 (\<lambda>p k. (p - k) / k) prices (maximum_accumulate prices) = 0 # ds"
    using drawdown_head [of prices] by auto
  then show ?thesis
    using fold_min_le [of ds 0]
    by (simp add: calculate_max_drawdown_def np_min_def)
qed

text \<open>
  C7. For a series of strictly positive prices and the return series computed from it, the
  risk score is returned and lies in [0,100]; when the return series is not empty it is the
  sum of the two capped contributions, each in [0,50]. The maximum drawdown is at most 0
  whenever \<^verbatim>\<open>calculate_max_drawdown\<close> returns, and it returns for every series that is not
  empty (\<^verbatim>\<open>np.min\<close> raises on the empty array).
\<close>

theorem risk_score_in_range:
  assumes "\<forall>p \<in> set prices. 0 < p"
  shows "(\<exists>s. calculate_risk_score (simple_returns prices) prices = Inr s \<and> 0 \<le> s \<and> s \<le> 100
             \<and> (simple_returns prices \<noteq> [] \<longrightarrow>
                  (\<exists>dd. calculate_max_drawdown prices = Inr dd
                    \<and> s = min (np_std (simple_returns prices) * sqrt 252 * 100) 50
                          + min (\<bar>dd\<bar> * 100) 50
                    \<and> 0 \<le> min (np_std (simple_returns prices) * sqrt 252 * 100) 50
                    \<and> 0 \<le> min (\<bar>dd\<bar> * 100) 50)))
         \<and> (case calculate_max_drawdown prices of Inr d \<Rightarrow> d \<le> 0 | Inl e \<Rightarrow> prices = [])"
proof -
  have dd: "case calculate_max_drawdown prices of Inr d \<Rightarrow> d \<le> 0 | Inl e \<Rightarrow> prices = []"
    using max_drawdown_nonpos [of prices] by (auto split: sum.splits)
  show ?thesis
  proof (cases "simple_returns prices = []")
    case True
    then show ?thesis using dd by (simp add: calculate_risk_score_def)
  next
    case False
    then have "prices \<noteq> []" by (auto simp: simple_returns_def)
    with dd obtain d where d: "calculate_max_drawdown prices = Inr d" "d \<le> 0"
      by (auto split: sum.splits)
    have v: "0 \<le> np_std (simple_returns prices) * sqrt 252 * 100"
      using np_std_nonneg by simp
    show ?thesis
      using False d v by (simp add: calculate_risk_score_def Let_def)
  qed
qed

theorem risk_score_in_range_witness:
  "(\<exists>s. calculate_risk_score (simple_returns [100, 110, 99]) [100, 110, 99] = Inr s
        \<and> 0 \<le> s \<and> s \<le> 100)
   \<and> simple_returns [100, 110, 99] = [1 / 10, - 1 / 10]
   \<and> calculate_max_drawdown [100, 110, 99] = Inr (- 1 / 10)"
proof -
  have pos: "\<forall>p \<in> set [100, 110, 99 :: real]. 0 < p" by simp
  have dd: "calculate_max_drawdown [100, 110, 99] = Inr (- 1 / 10)"
    by (simp add: calculate_max_drawdown_def maximum_accumulate_def np_min_def)
  have rs: "simple_returns [100, 110, 99] = [1 / 10, - 1 / 10]"
    by (simp add: simple_returns_def)
  from risk_score_in_range [OF pos] dd rs show ?thesis by blast
qed

subsection \<open>Rounding to doubles\<close>






text \<open>Rules that evaluate \<open>round_f64\<close> on numerals.\<close>

lemma floorlog2_numeral: "floorlog 2 (numeral n) = floorlog 2 (numeral n div 2) + 1"
  by (subst compute_floorlog) simp

lemma floorlog2_small: "floorlog 2 0 = 0" "floorlog 2 (Suc 0) = 1"
  by (simp_all add: compute_floorlog)

lemma ilog2_ge1: "1 \<le> a \<Longrightarrow> ilog2 a = bitlen \<lfloor>a\<rfloor> - 1"
  by (simp add: ilog2_def)

lemma ilog2_lt1: "a < 1 \<Longrightarrow> ilog2 a =
    (if a * 2 ^ nat (bitlen \<lfloor>1 / a\<rfloor> - 1) = 1 then - (bitlen \<lfloor>1 / a\<rfloor> - 1) else - (bitlen \<lfloor>1 / a\<rfloor> - 1) - 1)"
  by (simp add: ilog2_def Let_def)

lemma round_f64_nonzero: "x \<noteq> 0 \<Longrightarrow> round_f64 x =
    sgn x * of_int (round_half_even (\<bar>x\<bar> / pow2 (max (ilog2 \<bar>x\<bar>) (- 1022) - 52))) * pow2 (max (ilog2 \<bar>x\<bar>) (- 1022) - 52)"
  by (simp add: round_f64_def Let_def)

lemma round_f64_zero: "round_f64 0 = 0"
  by (simp add: round_f64_def)

lemma pow2_nonneg: "0 \<le> e \<Longrightarrow> pow2 e = 2 ^ nat e"
  and pow2_neg: "e < 0 \<Longrightarrow> pow2 e = 1 / 2 ^ nat (- e)"
  by (simp_all add: pow2_def)

lemma round_half_even_unfold: "round_half_even y =
     (if y - of_int \<lfloor>y\<rfloor> < 1 / 2 then \<lfloor>y\<rfloor> else if y - of_int \<lfloor>y\<rfloor> > 1 / 2 then \<lfloor>y\<rfloor> + 1 else if even \<lfloor>y\<rfloor> then \<lfloor>y\<rfloor> else \<lfloor>y\<rfloor> + 1)"
  by (simp add: round_half_even_def Let_def)

lemmas f64_eval =
  round_f64_nonzero round_f64_zero round_half_even_unfold pow2_nonneg pow2_neg
  ilog2_ge1 ilog2_lt1 bitlen_def floorlog2_numeral floorlog2_small

lemma round_f64_examples:
  "round_f64 10 = 10" "round_f64 110 = 110"
  "round_f64 (1 / 10) = 3602879701896397 / 36028797018963968"
  "round_f64 (- 1 / 3) = - 6004799503160661 / 18014398509481984"
  "round_f64 (2 ^ 53 + 1) = 2 ^ 53" "round_f64 (2 ^ 53 + 3) = 2 ^ 53 + 4"
  by (simp_all add: f64_eval)























subsection \<open>Portfolio allocation\<close>











subsection \<open>Market trends\<close>

lemma count_indices_dict:
  "count_indices (map (\<lambda>(k, v). Key_item k) items) (p, t) = Inl AttributeError
   \<or> count_indices (map (\<lambda>(k, v). Key_item k) items) (p, t) = Inr (p, t)"
  by (induction items) auto

text \<open>
  On a dictionary the function never succeeds: a key without the text "error" raises
  \<^verbatim>\<open>AttributeError\<close>, and if every key is skipped (or there is none) no index is counted
  and \<^verbatim>\<open>positive_ratio\<close> is unassigned.
\<close>

lemma analyze_market_trends_dict_fails:
  assumes "market_indices md = Py_dict items"
  shows "analyze_market_trends md = Inl AttributeError
         \<or> analyze_market_trends md = Inl UnboundLocalError"
  using assms count_indices_dict [of items 0 0]
  by (auto simp: analyze_market_trends_def)

lemma count_indices_list:
  assumes "\<forall>e \<in> set es. index_error e = None"
  shows "count_indices (map Entry_item es) (p, t) =
           Inr (p + length (filter (\<lambda>e. (case change_percent e of None \<Rightarrow> 0 | Some c \<Rightarrow> c) > 0) es),
                t + length es)"
  using assms by (induction es arbitrary: p t) auto

text \<open>
  On a list of entries without errors that is not empty the function succeeds and the trend
  follows the fraction of positive entries, as the specification says.
\<close>

lemma analyze_market_trends_list:
  assumes "market_indices md = Py_list es" "es \<noteq> []" "\<forall>e \<in> set es. index_error e = None"
  shows "\<exists>r. analyze_market_trends md = Inr r \<and> market_status r = ''success''
             \<and> market_trend r =
                  (if positive_fraction es > 0.6 then ''bullish''
                   else if positive_fraction es < 0.4 then ''bearish'' else ''neutral'')"
  using assms count_indices_list [OF assms(3), of 0 0]
  by (simp add: analyze_market_trends_def positive_fraction_def Let_def)

text \<open>
  C6, at the market data the pipeline passes. The market indices are the dictionary of
  \<^verbatim>\<open>get_market_overview\<close>, keyed by the index name; the loop reads the first key,
  \<^verbatim>\<open>"S&P 500"\<close>, and fails on \<^verbatim>\<open>index_data.get\<close>. The function returns the error
  dictionary with status "failed", not a trend. (The same three entries as a list give the
  trend of the claim: two of three are positive, 0.667 > 0.6, bullish.)
\<close>

theorem analyze_market_trends_overview_fails:
  "analyze_market_trends overview_market_data = Inl AttributeError
   \<and> (\<exists>r. analyze_market_trends
             (overview_market_data\<lparr>market_indices := Py_list (map snd overview_entries)\<rparr>) = Inr r
          \<and> market_trend r = ''bullish'' \<and> market_status r = ''success'')"
  by (simp add: analyze_market_trends_def overview_market_data_def overview_entries_def
      get_leading_sectors_def get_lagging_sectors_def sector_change_def)

subsection \<open>Indicator engine: RSI\<close>

lemma length_np_diff: "length (np_diff xs) = length xs - 1"
  by (induction xs rule: np_diff.induct) simp_all

lemma length_gains: "length (gains xs) = length xs"
  by (cases xs) (simp_all add: gains_def length_np_diff)

lemma length_losses: "length (losses xs) = length xs"
  by (cases xs) (simp_all add: losses_def length_np_diff)

lemma gains_nonneg: "x \<in> set (gains xs) \<Longrightarrow> 0 \<le> x"
  by (cases xs) (auto simp: gains_def)

lemma losses_nonneg: "x \<in> set (losses xs) \<Longrightarrow> 0 \<le> x"
  by (cases xs) (auto simp: losses_def)

lemma rolling_mean_nonneg:
  assumes "\<And>x. x \<in> set xs \<Longrightarrow> 0 \<le> x" "rolling_mean_last w xs = Some m"
  shows "0 \<le> m"
proof -
  have "0 \<le> sum_list (drop (length xs - w) xs)"
    using assms(1) by (intro sum_list_nonneg) (auto dest: in_set_dropD)
  with assms(2) show ?thesis
    by (auto simp: rolling_mean_last_def split: if_splits)
qed

lemma avg_gain_nonneg: "avg_gain xs = Some g \<Longrightarrow> 0 \<le> g"
  unfolding avg_gain_def using rolling_mean_nonneg gains_nonneg by blast

lemma avg_loss_nonneg: "avg_loss xs = Some l \<Longrightarrow> 0 \<le> l"
  unfolding avg_loss_def using rolling_mean_nonneg losses_nonneg by blast

lemma avg_None:
  "avg_gain xs = None \<longleftrightarrow> length xs < 14"
  "avg_loss xs = None \<longleftrightarrow> length xs < 14"
  by (simp_all add: avg_gain_def avg_loss_def rolling_mean_last_def length_gains length_losses)

lemma rsi_value_range:
  assumes "rsi_value (Some g) (Some l) = Some r" "0 \<le> g" "0 \<le> l"
  shows "0 \<le> r \<and> r \<le> 100 \<and> (l = 0 \<longrightarrow> r = 100)"
proof (cases "l = 0")
  case True
  with assms show ?thesis by (auto simp: rsi_value_def split: if_splits)
next
  case False
  with assms have l: "0 < l" by simp
  then have q: "0 \<le> g / l" using assms by simp
  have r: "r = 100 - 100 / (1 + g / l)" using assms False by (simp add: rsi_value_def)
  have "0 < 100 / (1 + g / l)" using q by simp
  moreover have "100 / (1 + g / l) \<le> 100 / 1"
    using q by (intro divide_left_mono) simp_all
  ultimately show ?thesis using r False by auto
qed

text \<open>
  Where \<^verbatim>\<open>calculate_rsi\<close> returns, the RSI lies in [0,100], and it is 100 when the average
  loss is 0. It returns exactly for the series of at least 14 bars on which the average
  gain and the average loss are not both 0; on every other series the RSI is NaN and the
  comparison \<^verbatim>\<open>current_rsi > 70\<close> raises.
\<close>

lemma calculate_rsi_characterised:
  "(\<forall>r. calculate_rsi df = Inr r \<longrightarrow>
       0 \<le> current_rsi r \<and> current_rsi r \<le> 100
       \<and> (avg_loss (map bar_close df) = Some 0 \<longrightarrow> current_rsi r = 100))
   \<and> ((\<exists>r. calculate_rsi df = Inr r) \<longleftrightarrow>
         14 \<le> length df
         \<and> \<not> (avg_gain (map bar_close df) = Some 0 \<and> avg_loss (map bar_close df) = Some 0))"
proof -
  let ?c = "map bar_close df"
  show ?thesis
  proof (cases "14 \<le> length df")
    case False
    then have "avg_gain ?c = None" using avg_None(1) [of ?c] by auto
    then have "rsi_value (avg_gain ?c) (avg_loss ?c) = None" by (simp add: rsi_value_def)
    with False show ?thesis by (auto simp: calculate_rsi_def Let_def)
  next
    case True
    then obtain g l where gl: "avg_gain ?c = Some g" "avg_loss ?c = Some l"
      using avg_None [of ?c] by (cases "avg_gain ?c"; cases "avg_loss ?c") auto
    have nn: "0 \<le> g" "0 \<le> l" using gl avg_gain_nonneg avg_loss_nonneg by auto
    from True have ne: "?c \<noteq> []" by auto
    show ?thesis
    proof (cases "rsi_value (Some g) (Some l)")
      case None
      then have "g = 0 \<and> l = 0" by (auto simp: rsi_value_def split: if_splits)
      with None gl ne True show ?thesis by (auto simp: calculate_rsi_def Let_def)
    next
      case (Some r)
      from rsi_value_range [OF Some nn] Some gl ne True show ?thesis
        by (auto simp: calculate_rsi_def Let_def rsi_value_def split: if_splits)
    qed
  qed
qed

lemma calculate_rsi_raises:
  assumes "df \<noteq> []"
    and "length df < 14
         \<or> (avg_gain (map bar_close df) = Some 0 \<and> avg_loss (map bar_close df) = Some 0)"
  shows "calculate_rsi df = Inl TypeError"
proof -
  have "\<not> (\<exists>r. calculate_rsi df = Inr r)"
    using calculate_rsi_characterised [of df] assms(2) by auto
  then obtain e where e: "calculate_rsi df = Inl e" by (cases "calculate_rsi df") auto
  then have "e = TypeError"
    using assms(1) by (auto simp: calculate_rsi_def Let_def split: option.splits)
  with e show ?thesis by simp
qed

lemma calculate_rsi_examples:
  "calculate_rsi rising_bars =
     Inr \<lparr>current_rsi = 100, rsi_signals = [''RSI indicates overbought condition''],
          rsi_interpretation = ''overbought''\<rparr>"
  "avg_gain (map bar_close rising_bars) = Some (13 / 14)"
  "avg_loss (map bar_close rising_bars) = Some 0"
  "calculate_rsi mixed_bars =
       Inr \<lparr>current_rsi = 50, rsi_signals = [''RSI in neutral range''],
            rsi_interpretation = ''neutral''\<rparr>"
  by (simp_all add: rising_bars_def mixed_bars_def flat_bar_def calculate_rsi_def rsi_value_def
      avg_gain_def avg_loss_def gains_def losses_def rolling_mean_last_def)

text \<open>
  With an average gain of \<open>2\<^sup>6\<^sup>0\<close> and an average loss of 1 the RSI is below 100, and the two
  lines give exactly 100 on doubles.
\<close>

lemma rsi_f64_rounds_to_100:
  "rsi_f64 (2 ^ 60) 1 = 100"
  "rsi_value (Some (2 ^ 60)) (Some 1) = Some (100 - 100 / (1 + 2 ^ 60))"
  "100 - 100 / (1 + 2 ^ 60) < (100::real)"
  by (simp_all add: rsi_f64_def rsi_value_def f64_eval)

text \<open>
  C3, on the code. On the thirty bars that all close at 50 the average gain and the average
  loss are both 0, \<^verbatim>\<open>gain / loss\<close> is NaN, \<^verbatim>\<open>convert_to_native_type\<close> turns the RSI into
  \<^verbatim>\<open>None\<close>, and \<^verbatim>\<open>current_rsi > 70\<close> raises \<^verbatim>\<open>TypeError\<close>: no RSI is returned, and
  \<^verbatim>\<open>analyze_stock\<close> returns the error result. On the five bars the rolling means are NaN
  and the same comparison raises.
\<close>

theorem rsi_raises_on_flat_and_short_series:
  "avg_gain (map bar_close flat_series) = Some 0
   \<and> avg_loss (map bar_close flat_series) = Some 0
   \<and> calculate_rsi flat_series = Inl TypeError
   \<and> analyze_stock (Fetched flat_series (Some 50)) = Inl (Analysis_failed TypeError)
   \<and> avg_gain (map bar_close short_series) = None
   \<and> avg_loss (map bar_close short_series) = None
   \<and> calculate_rsi short_series = Inl TypeError
   \<and> analyze_stock (Fetched short_series (Some 104)) = Inl (Analysis_failed TypeError)"
proof -
  have flat: "avg_gain (map bar_close flat_series) = Some 0"
    "avg_loss (map bar_close flat_series) = Some 0"
    by (simp_all add: flat_series_def flat_bar_def avg_gain_def avg_loss_def gains_def
        losses_def rolling_mean_last_def)
  have short: "avg_gain (map bar_close short_series) = None"
    "avg_loss (map bar_close short_series) = None"
    by (simp_all add: short_series_def flat_bar_def avg_gain_def avg_loss_def gains_def
        losses_def rolling_mean_last_def)
  have ne: "flat_series \<noteq> []" "short_series \<noteq> []"
    by (simp_all add: flat_series_def short_series_def)
  have rsi: "calculate_rsi flat_series = Inl TypeError" "calculate_rsi short_series = Inl TypeError"
    using flat short ne by (simp_all add: calculate_rsi_def rsi_value_def)
  obtain ma1 ma2 where ma: "calculate_moving_averages flat_series = Inr ma1"
    "calculate_moving_averages short_series = Inr ma2"
    using ne by (simp add: calculate_moving_averages_def Let_def)
  have "analyze_stock (Fetched flat_series (Some 50)) = Inl (Analysis_failed TypeError)"
    "analyze_stock (Fetched short_series (Some 104)) = Inl (Analysis_failed TypeError)"
    using ne ma rsi by (simp_all add: analyze_stock_def compute_indicators_def)
  with flat short rsi show ?thesis by simp
qed

subsection \<open>Indicator engine: a single bar\<close>

lemma single_ma:
  "\<exists>ma. calculate_moving_averages [b] = Inr ma \<and> sma_20 ma = None \<and> sma_50 ma = None
         \<and> sma_200 ma = None \<and> ma_signals ma = []"
  by (simp add: calculate_moving_averages_def rolling_mean_last_def Let_def)

lemma single_rsi: "calculate_rsi [b] = Inl TypeError"
  by (simp add: calculate_rsi_def avg_gain_def avg_loss_def rolling_mean_last_def
      rsi_value_def gains_def)

lemma single_bb: "calculate_bollinger_bands [b] = Inl TypeError"
  by (simp add: calculate_bollinger_bands_def rolling_mean_last_def rolling_std_last_def)

lemma single_vol: "analyze_volume [b] = Inl TypeError"
  by (simp add: analyze_volume_def rolling_mean_last_def)

text \<open>
  C5, on the code. For every series of exactly one bar the moving averages are computed
  (the three rolling means are absent and no signal is emitted), and then
  \<^verbatim>\<open>calculate_rsi\<close> raises \<^verbatim>\<open>TypeError\<close> on \<^verbatim>\<open>None > 70\<close>. \<^verbatim>\<open>analyze_stock\<close> catches it
  and returns the error result; no trading signal is produced. The Bollinger bands and the
  volume analysis raise on a single bar as well.
\<close>

theorem single_bar_analysis_fails:
  "analyze_stock (Fetched [b] price) = Inl (Analysis_failed TypeError)
   \<and> calculate_rsi [b] = Inl TypeError
   \<and> calculate_bollinger_bands [b] = Inl TypeError
   \<and> analyze_volume [b] = Inl TypeError
   \<and> (\<exists>ma. calculate_moving_averages [b] = Inr ma \<and> sma_20 ma = None \<and> sma_50 ma = None
          \<and> sma_200 ma = None \<and> ma_signals ma = [])"
  using single_ma [of b]
  by (auto simp: analyze_stock_def compute_indicators_def single_rsi single_bb single_vol)

subsection \<open>Indicator engine: when the analysis returns\<close>

text \<open>
  With at least 20 bars, a last close that is not 0 and an RSI that is defined, every
  indicator returns and \<^verbatim>\<open>analyze_stock\<close> returns a result.
\<close>

lemma ma_returns: "df \<noteq> [] \<Longrightarrow> \<exists>ma. calculate_moving_averages df = Inr ma"
  by (simp add: calculate_moving_averages_def Let_def)

lemma macd_returns: "df \<noteq> [] \<Longrightarrow> \<exists>m. calculate_macd df = Inr m"
  by (simp add: calculate_macd_def Let_def)

lemma bb_returns: "20 \<le> length df \<Longrightarrow> \<exists>b. calculate_bollinger_bands df = Inr b"
  by (auto simp: calculate_bollinger_bands_def Let_def rolling_mean_last_def rolling_std_last_def)

lemma sr_returns: "df \<noteq> [] \<Longrightarrow> bar_close (last df) \<noteq> 0 \<Longrightarrow> \<exists>r. find_support_resistance df = Inr r"
  by (simp add: find_support_resistance_def Let_def last_map)

lemma pcp_returns: "2 \<le> length cs \<Longrightarrow> last cs \<noteq> 0 \<Longrightarrow> \<exists>u. price_change_positive cs = Inr u"
  by (simp add: price_change_positive_def Let_def)

lemma vol_returns:
  assumes "20 \<le> length df" "bar_close (last df) \<noteq> 0"
  shows "\<exists>v. analyze_volume df = Inr v"
proof -
  from assms have ne: "df \<noteq> []" by auto
  have "rolling_mean_last 20 (map bar_volume df) \<noteq> None"
    using assms by (simp add: rolling_mean_last_def)
  then obtain a where a: "rolling_mean_last 20 (map bar_volume df) = Some a"
    by blast
  obtain u where u: "price_change_positive (map bar_close df) = Inr u"
    using pcp_returns [of "map bar_close df"] assms ne by (auto simp: last_map)
  show ?thesis using ne a u by (simp add: analyze_volume_def Let_def)
qed

lemma analyze_stock_returns:
  assumes "20 \<le> length df" "bar_close (last df) \<noteq> 0"
    and "\<not> (avg_gain (map bar_close df) = Some 0 \<and> avg_loss (map bar_close df) = Some 0)"
  shows "\<exists>ta. analyze_stock (Fetched df price) = Inr ta"
proof -
  from assms have ne: "df \<noteq> []" by auto
  obtain ma where 1: "calculate_moving_averages df = Inr ma" using ma_returns ne by blast
  obtain r where 2: "calculate_rsi df = Inr r"
    using calculate_rsi_characterised [of df] assms by auto
  obtain m where 3: "calculate_macd df = Inr m" using macd_returns ne by blast
  obtain b where 4: "calculate_bollinger_bands df = Inr b" using bb_returns assms by blast
  obtain s where 5: "find_support_resistance df = Inr s" using sr_returns ne assms by blast
  obtain v where 6: "analyze_volume df = Inr v" using vol_returns assms by blast
  show ?thesis using ne 1 2 3 4 5 6
    by (simp add: analyze_stock_def compute_indicators_def)
qed

text \<open>
  The tally on five signal texts: two count as bullish (the words "bullish" and "oversold"),
  two as bearish ("overbought" and "decreasing"), one as neither.
\<close>

lemma tally_examples:
  "tally [''Price above 20-day SMA (bullish)'', ''RSI indicates overbought condition'',
          ''MACD histogram decreasing (momentum weakening)'', ''Price near support level'',
          ''Price below lower Bollinger Band (potentially oversold)''] (0, 0) = (2, 2)"
  by (simp add: str_lower_def lower_char_def)

end
